theory Spec2Isabelle
  imports Main "HOL-Library.Word"
begin

section \<open>LuaCppMsg: the value model of \<^verbatim>\<open>include/LuaCppMsg.hpp\<close>\<close>

text \<open>
  The header declares, inside \<^verbatim>\<open>Message<CustomTypes...>\<close>,
  \<^verbatim>\<open>Bool = bool\<close>, \<^verbatim>\<open>Num = double\<close>, \<^verbatim>\<open>Int = int\<close>, \<^verbatim>\<open>Str = std::string\<close>,
  \<^verbatim>\<open>Key = boost::variant<Int, Str>\<close> and the recursive variant \<^verbatim>\<open>Item\<close> over
  \<^verbatim>\<open>Bool, Num, Str, CustomTypes..., unordered_map<Key, Item>\<close>.

  A \<^verbatim>\<open>double\<close> is only stored, copied and moved by this code, never computed with, so it
  is carried as its 64-bit pattern. An \<^verbatim>\<open>int\<close> key is a 32-bit word.
  The pack \<^verbatim>\<open>CustomTypes...\<close> is a type \<open>'k\<close> of kind names with payloads of type
  \<open>'c\<close>: \<open>Custom k c\<close> is an object of kind \<open>k\<close> held by value, and \<open>CopyPtr k a\<close> is
  the pack member \<^verbatim>\<open>CopyPtr<T>*\<close>, a raw pointer \<open>a\<close> to an object of kind \<open>k\<close> that
  lives outside the variant. An \<^verbatim>\<open>unordered_map\<close> is the list of its entries in
  iteration order (keys distinct in every map the code can build).
\<close>

type_synonym Int32 = "32 word"
type_synonym Num = "64 word"
type_synonym Str = string
type_synonym addr = nat
type_synonym lua_State = nat

datatype Key = KInt Int32 | KStr Str

datatype ('k, 'c) Item =
    Bool bool
  | Num Num
  | Str Str
  | Custom 'k 'c
  | CopyPtr 'k addr
  | Map "(Key \<times> ('k, 'c) Item) list"

text \<open>
  What the code can throw: \<^verbatim>\<open>boost::bad_get\<close> from \<^verbatim>\<open>boost::get<T>\<close> (the spec's
  TypeMismatch), \<^verbatim>\<open>std::out_of_range\<close> from \<^verbatim>\<open>unordered_map::at\<close> (the spec's
  KeyNotFound), and whatever the copy constructor of a custom type throws. Reading through
  a pointer to no live object is undefined in C++; the model reports it as
  \<open>invalid_pointer\<close>.
\<close>

datatype error = bad_get | out_of_range | copy_threw | invalid_pointer

text \<open>
  The copy constructors of the custom types are not part of the header: they are the
  parameter \<open>cc\<close>, where \<open>cc k c = None\<close> says that copying the object \<open>c\<close> of kind \<open>k\<close>
  throws and \<open>cc k c = Some c'\<close> that it builds \<open>c'\<close>. The objects that \<^verbatim>\<open>CopyPtr\<close>
  pointers refer to live in a store \<open>h\<close> from addresses to payloads; destroying an object
  removes its address from the store. Moving a value leaves its content as it is.
\<close>

type_synonym ('k, 'c) copy_ctor = "'k \<Rightarrow> 'c \<Rightarrow> 'c option"
type_synonym 'c heap = "addr \<Rightarrow> 'c option"

text \<open>
  The copy constructor of \<^verbatim>\<open>Item\<close> (of \<^verbatim>\<open>boost::variant\<close>): it copies the held
  alternative, a map entry by entry, a custom object through its copy constructor, a
  pointer as the address it is.
\<close>

fun copy_Item :: "('k, 'c) copy_ctor \<Rightarrow> ('k, 'c) Item \<Rightarrow> error + ('k, 'c) Item"
  and copy_entries :: "('k, 'c) copy_ctor \<Rightarrow> (Key \<times> ('k, 'c) Item) list
        \<Rightarrow> error + (Key \<times> ('k, 'c) Item) list" where
  "copy_Item cc (Bool b) = Inr (Bool b)"
| "copy_Item cc (Num n) = Inr (Num n)"
| "copy_Item cc (Str s) = Inr (Str s)"
| "copy_Item cc (Custom k c) =
     (case cc k c of None \<Rightarrow> Inl copy_threw | Some c' \<Rightarrow> Inr (Custom k c'))"
| "copy_Item cc (CopyPtr k a) = Inr (CopyPtr k a)"
| "copy_Item cc (Map m) =
     (case copy_entries cc m of Inl e \<Rightarrow> Inl e | Inr m' \<Rightarrow> Inr (Map m'))"
| "copy_entries cc [] = Inr []"
| "copy_entries cc ((key, v) # rest) =
     (case copy_Item cc v of
        Inl e \<Rightarrow> Inl e
      | Inr v' \<Rightarrow> (case copy_entries cc rest of
                     Inl e \<Rightarrow> Inl e
                   | Inr rest' \<Rightarrow> Inr ((key, v') # rest')))"

subsection \<open>\<^verbatim>\<open>boost::get<T>\<close>, \<^verbatim>\<open>Message\<close> and \<^verbatim>\<open>Message::Nested\<close>\<close>

text \<open>
  \<open>which\<close> names the alternative a variant holds. \<^verbatim>\<open>boost::get<T>(item)\<close> returns the
  content when the variant holds a \<^verbatim>\<open>T\<close> and throws \<^verbatim>\<open>bad_get\<close> otherwise; there is
  one instance for each alternative.
\<close>

datatype 'k tag = TBool | TNum | TStr | TCustom 'k | TCopyPtr 'k | TMap

fun which :: "('k, 'c) Item \<Rightarrow> 'k tag" where
  "which (Bool b) = TBool"
| "which (Num n) = TNum"
| "which (Str s) = TStr"
| "which (Custom k c) = TCustom k"
| "which (CopyPtr k a) = TCopyPtr k"
| "which (Map m) = TMap"

fun get_Bool :: "('k, 'c) Item \<Rightarrow> error + bool" where
  "get_Bool (Bool b) = Inr b"
| "get_Bool _ = Inl bad_get"

fun get_Num :: "('k, 'c) Item \<Rightarrow> error + Num" where
  "get_Num (Num n) = Inr n"
| "get_Num _ = Inl bad_get"

fun get_Str :: "('k, 'c) Item \<Rightarrow> error + Str" where
  "get_Str (Str s) = Inr s"
| "get_Str _ = Inl bad_get"

fun get_Custom :: "'k \<Rightarrow> ('k, 'c) Item \<Rightarrow> error + 'c" where
  "get_Custom t (Custom k c) = (if k = t then Inr c else Inl bad_get)"
| "get_Custom t _ = Inl bad_get"

fun get_CopyPtr :: "'k \<Rightarrow> ('k, 'c) Item \<Rightarrow> error + addr" where
  "get_CopyPtr t (CopyPtr k a) = (if k = t then Inr a else Inl bad_get)"
| "get_CopyPtr t _ = Inl bad_get"

fun get_Map :: "('k, 'c) Item \<Rightarrow> error + (Key \<times> ('k, 'c) Item) list" where
  "get_Map (Map m) = Inr m"
| "get_Map _ = Inl bad_get"

text \<open>\<^verbatim>\<open>unordered_map::at\<close>: the value stored at the key, or \<^verbatim>\<open>out_of_range\<close>.\<close>

definition Map_at :: "(Key \<times> ('k, 'c) Item) list \<Rightarrow> Key \<Rightarrow> error + ('k, 'c) Item" where
  "Map_at m key = (case map_of m key of None \<Rightarrow> Inl out_of_range | Some v \<Rightarrow> Inr v)"

text \<open>
  A \<^verbatim>\<open>Message\<close> owns its root item. A \<^verbatim>\<open>Nested\<close> holds a pointer to a constant item
  of the tree; it is modelled by the item it points to. All accessors are \<^verbatim>\<open>const\<close>
  member functions: they read the object and give a result.
\<close>

record ('k, 'c) Message =
  m_item :: "('k, 'c) Item"

record ('k, 'c) Nested =
  m_pitem :: "('k, 'c) Item"




definition Nested_as_Custom :: "'k \<Rightarrow> ('k, 'c) Nested \<Rightarrow> error + 'c" where
  "Nested_as_Custom t n = get_Custom t (m_pitem n)"

definition Nested_as_CopyPtr :: "'k \<Rightarrow> ('k, 'c) Nested \<Rightarrow> error + addr" where
  "Nested_as_CopyPtr t n = get_CopyPtr t (m_pitem n)"


definition Nested_get :: "Key \<Rightarrow> ('k, 'c) Nested \<Rightarrow> error + ('k, 'c) Nested" where
  "Nested_get key n =
     (case get_Map (m_pitem n) of
        Inl e \<Rightarrow> Inl e
      | Inr m \<Rightarrow> (case Map_at m key of
                    Inl e \<Rightarrow> Inl e
                  | Inr item \<Rightarrow> Inr \<lparr>m_pitem = item\<rparr>))"

definition Message_as_Bool :: "('k, 'c) Message \<Rightarrow> error + bool" where
  "Message_as_Bool msg = get_Bool (m_item msg)"

definition Message_as_Num :: "('k, 'c) Message \<Rightarrow> error + Num" where
  "Message_as_Num msg = get_Num (m_item msg)"

definition Message_as_Str :: "('k, 'c) Message \<Rightarrow> error + Str" where
  "Message_as_Str msg = get_Str (m_item msg)"




definition Message_get :: "Key \<Rightarrow> ('k, 'c) Message \<Rightarrow> error + ('k, 'c) Nested" where
  "Message_get key msg =
     (case get_Map (m_item msg) of
        Inl e \<Rightarrow> Inl e
      | Inr m \<Rightarrow> (case Map_at m key of
                    Inl e \<Rightarrow> Inl e
                  | Inr item \<Rightarrow> Inr \<lparr>m_pitem = item\<rparr>))"

subsection \<open>\<^verbatim>\<open>Queue::CopyVisitor\<close>\<close>

text \<open>
  The visitor has three call operators: one taking \<^verbatim>\<open>CopyPtr<T>*\<close> by value, which
  returns \<^verbatim>\<open>T(*((T*)to_copy))\<close>; one taking \<^verbatim>\<open>Map&\<close>, which visits every entry's value in
  place and returns the map moved; and a template taking \<^verbatim>\<open>T&\<close>, which returns
  \<^verbatim>\<open>std::move(to_copy)\<close>.

  \<open>CopyVisitor\<close> is the visit of an \<^verbatim>\<open>Item\<close> that is not \<^verbatim>\<open>const\<close>: a pointer goes to
  the first operator, a map to the second, every other alternative to the third, which
  moves it.
\<close>

fun CopyVisitor :: "('k, 'c) copy_ctor \<Rightarrow> 'c heap \<Rightarrow> ('k, 'c) Item \<Rightarrow> error + ('k, 'c) Item"
  and CopyVisitor_entries :: "('k, 'c) copy_ctor \<Rightarrow> 'c heap \<Rightarrow> (Key \<times> ('k, 'c) Item) list
        \<Rightarrow> error + (Key \<times> ('k, 'c) Item) list" where
  "CopyVisitor cc h (CopyPtr k a) =
     (case h a of
        None \<Rightarrow> Inl invalid_pointer
      | Some c \<Rightarrow> (case cc k c of None \<Rightarrow> Inl copy_threw | Some c' \<Rightarrow> Inr (Custom k c')))"
| "CopyVisitor cc h (Map m) =
     (case CopyVisitor_entries cc h m of Inl e \<Rightarrow> Inl e | Inr m' \<Rightarrow> Inr (Map m'))"
| "CopyVisitor cc h (Bool b) = Inr (Bool b)"
| "CopyVisitor cc h (Num n) = Inr (Num n)"
| "CopyVisitor cc h (Str s) = Inr (Str s)"
| "CopyVisitor cc h (Custom k c) = Inr (Custom k c)"
| "CopyVisitor_entries cc h [] = Inr []"
| "CopyVisitor_entries cc h ((key, v) # rest) =
     (case CopyVisitor cc h v of
        Inl e \<Rightarrow> Inl e
      | Inr v' \<Rightarrow> (case CopyVisitor_entries cc h rest of
                     Inl e \<Rightarrow> Inl e
                   | Inr rest' \<Rightarrow> Inr ((key, v') # rest')))"

text \<open>
  \<open>CopyVisitor_const\<close> is the visit of a \<^verbatim>\<open>const Item\<close>, where the visitor is called
  with a reference to a constant alternative. A pointer still goes to the first operator
  (it is taken by value). A \<^verbatim>\<open>const Map\<close> cannot bind to \<^verbatim>\<open>Map&\<close>, so it goes, like
  every other alternative, to the template with \<^verbatim>\<open>T = const Map\<close>, and
  \<^verbatim>\<open>std::move\<close> of a constant object copies it.
\<close>

fun CopyVisitor_const ::
  "('k, 'c) copy_ctor \<Rightarrow> 'c heap \<Rightarrow> ('k, 'c) Item \<Rightarrow> error + ('k, 'c) Item" where
  "CopyVisitor_const cc h (CopyPtr k a) =
     (case h a of
        None \<Rightarrow> Inl invalid_pointer
      | Some c \<Rightarrow> (case cc k c of None \<Rightarrow> Inl copy_threw | Some c' \<Rightarrow> Inr (Custom k c')))"
| "CopyVisitor_const cc h (Map m) = copy_Item cc (Map m)"
| "CopyVisitor_const cc h (Bool b) = copy_Item cc (Bool b)"
| "CopyVisitor_const cc h (Num n) = copy_Item cc (Num n)"
| "CopyVisitor_const cc h (Str s) = copy_Item cc (Str s)"
| "CopyVisitor_const cc h (Custom k c) = copy_Item cc (Custom k c)"

subsection \<open>\<^verbatim>\<open>Queue\<close>\<close>

text \<open>
  The queue holds \<^verbatim>\<open>m_lua\<close>, a shared pointer to a \<^verbatim>\<open>LuaContext\<close> wrapping a
  \<^verbatim>\<open>lua_State*\<close> (null until \<^verbatim>\<open>bind\<close>), and \<^verbatim>\<open>m_queue\<close>, front first. Every operation
  holds \<^verbatim>\<open>m_mutex\<close> for its whole body, so operations are steps on the queue state, one
  after the other.
\<close>

datatype LuaContext = LuaContext lua_State

record ('k, 'c) Queue =
  m_lua :: "LuaContext option"
  m_queue :: "('k, 'c) Item list"

definition Queue_init :: "('k, 'c) Queue" where
  "Queue_init = \<lparr>m_lua = None, m_queue = []\<rparr>"

text \<open>\<^verbatim>\<open>unsigned size_unsafe()\<close> returns \<^verbatim>\<open>m_queue.size()\<close> as a 32-bit unsigned.\<close>

definition size_unsafe :: "('k, 'c) Queue \<Rightarrow> 32 word" where
  "size_unsafe q = of_nat (length (m_queue q))"

definition Queue_size :: "('k, 'c) Queue \<Rightarrow> 32 word" where
  "Queue_size q = size_unsafe q"

text \<open>
  \<^verbatim>\<open>push\<close> has three overloads, chosen by the argument: a C string, an \<^verbatim>\<open>Item\<close> lvalue
  (\<^verbatim>\<open>const Item&\<close>), and an \<^verbatim>\<open>Item\<close> rvalue (\<^verbatim>\<open>Item&&\<close>, also what a \<^verbatim>\<open>Map\<close>, a
  number or a pointer converts to). The first builds the string item and appends it. The
  other two run the visitor, on the constant argument and on the argument, and append the
  result; when the visitor throws, nothing is appended.
\<close>

datatype ('k, 'c) push_arg =
    CString Str
  | Lvalue "('k, 'c) Item"
  | Rvalue "('k, 'c) Item"

fun Queue_push :: "('k, 'c) copy_ctor \<Rightarrow> 'c heap \<Rightarrow> ('k, 'c) push_arg \<Rightarrow> ('k, 'c) Queue
    \<Rightarrow> (error + unit) \<times> ('k, 'c) Queue" where
  "Queue_push cc h (CString msg) q = (Inr (), q\<lparr>m_queue := m_queue q @ [Str msg]\<rparr>)"
| "Queue_push cc h (Lvalue msg) q =
     (case CopyVisitor_const cc h msg of
        Inl e \<Rightarrow> (Inl e, q)
      | Inr item \<Rightarrow> (Inr (), q\<lparr>m_queue := m_queue q @ [item]\<rparr>))"
| "Queue_push cc h (Rvalue msg) q =
     (case CopyVisitor cc h msg of
        Inl e \<Rightarrow> (Inl e, q)
      | Inr item \<Rightarrow> (Inr (), q\<lparr>m_queue := m_queue q @ [item]\<rparr>))"

text \<open>
  \<^verbatim>\<open>pop\<close> returns \<^verbatim>\<open>boost::none\<close> when \<^verbatim>\<open>size_unsafe()\<close> is zero. Otherwise it builds
  \<^verbatim>\<open>Msg msg(std::move(m_queue.front()))\<close>; the constructor \<^verbatim>\<open>Message(Item&& item_)\<close>
  initialises \<^verbatim>\<open>m_item(item_)\<close> from the named parameter, which copies the item; when
  that copy throws, the queue is as it was. Then the front entry is removed and the
  message returned (moved into the optional). A queue whose size is not zero has a front
  entry, so the empty case of the list below is never taken.
\<close>

definition Queue_pop :: "('k, 'c) copy_ctor \<Rightarrow> ('k, 'c) Queue
    \<Rightarrow> (error + ('k, 'c) Message option) \<times> ('k, 'c) Queue" where
  "Queue_pop cc q =
     (if size_unsafe q = 0 then (Inr None, q)
      else (case m_queue q of
              [] \<Rightarrow> (Inr None, q)
            | front # rest \<Rightarrow>
                (case copy_Item cc front of
                   Inl e \<Rightarrow> (Inl e, q)
                 | Inr item \<Rightarrow> (Inr (Some \<lparr>m_item = item\<rparr>), q\<lparr>m_queue := rest\<rparr>))))"

text \<open>
  \<^verbatim>\<open>bind\<close> sets \<^verbatim>\<open>m_lua\<close> to a new context for the state and, unless the state is
  already in the static set \<^verbatim>\<open>bound_states()\<close>, registers \<^verbatim>\<open>size\<close>, \<^verbatim>\<open>push\<close> and
  \<^verbatim>\<open>pop\<close> and inserts the state. \<^verbatim>\<open>LuaContext::registerFunction\<close> belongs to the Lua
  wrapper library: it is the parameter \<open>registerFunction\<close>, acting on the runtime \<open>'w\<close>.
  The static set and the runtime stand beside the queue in the state.
\<close>

definition Queue_bind :: "(lua_State \<Rightarrow> string \<Rightarrow> 'w \<Rightarrow> 'w) \<Rightarrow> lua_State
    \<Rightarrow> ('k, 'c) Queue \<times> lua_State set \<times> 'w \<Rightarrow> ('k, 'c) Queue \<times> lua_State set \<times> 'w" where
  "Queue_bind registerFunction L s =
     (case s of (q, bound_states, w) \<Rightarrow>
        (let q' = q\<lparr>m_lua := Some (LuaContext L)\<rparr> in
         if L \<notin> bound_states
         then (q', insert L bound_states,
               registerFunction L ''pop''
                 (registerFunction L ''push'' (registerFunction L ''size'' w)))
         else (q', bound_states, w)))"

subsection \<open>Predicates on values\<close>

text \<open>
  \<open>owned v\<close>: no \<^verbatim>\<open>CopyPtr\<close> pointer stands in \<open>v\<close>, at the root or inside a map at any
  depth. \<open>copy_equal cc v\<close>: copying any custom object held in \<open>v\<close> succeeds and builds an
  equal object. \<open>primitive v\<close>: \<open>v\<close> holds a \<^verbatim>\<open>Bool\<close>, a \<^verbatim>\<open>Num\<close> or a \<^verbatim>\<open>Str\<close>.
\<close>

fun owned :: "('k, 'c) Item \<Rightarrow> bool"
  and owned_entries :: "(Key \<times> ('k, 'c) Item) list \<Rightarrow> bool" where
  "owned (Bool b) = True"
| "owned (Num n) = True"
| "owned (Str s) = True"
| "owned (Custom k c) = True"
| "owned (CopyPtr k a) = False"
| "owned (Map m) = owned_entries m"
| "owned_entries [] = True"
| "owned_entries ((key, v) # rest) = (owned v \<and> owned_entries rest)"

fun copy_equal :: "('k, 'c) copy_ctor \<Rightarrow> ('k, 'c) Item \<Rightarrow> bool"
  and copy_equal_entries :: "('k, 'c) copy_ctor \<Rightarrow> (Key \<times> ('k, 'c) Item) list \<Rightarrow> bool" where
  "copy_equal cc (Bool b) = True"
| "copy_equal cc (Num n) = True"
| "copy_equal cc (Str s) = True"
| "copy_equal cc (Custom k c) = (cc k c = Some c)"
| "copy_equal cc (CopyPtr k a) = True"
| "copy_equal cc (Map m) = copy_equal_entries cc m"
| "copy_equal_entries cc [] = True"
| "copy_equal_entries cc ((key, v) # rest) = (copy_equal cc v \<and> copy_equal_entries cc rest)"

fun primitive :: "('k, 'c) Item \<Rightarrow> bool" where
  "primitive (Bool b) = True"
| "primitive (Num n) = True"
| "primitive (Str s) = True"
| "primitive (Custom k c) = False"
| "primitive (CopyPtr k a) = False"
| "primitive (Map m) = False"



text \<open>The item a \<^verbatim>\<open>push\<close> argument denotes; a C string denotes \<^verbatim>\<open>Item(Str(msg_))\<close>.\<close>

fun arg_item :: "('k, 'c) push_arg \<Rightarrow> ('k, 'c) Item" where
  "arg_item (CString msg) = Str msg"
| "arg_item (Lvalue msg) = msg"
| "arg_item (Rvalue msg) = msg"

text \<open>
  Two copy constructors for the examples: \<open>copy_same\<close> builds an equal object (as the
  copy constructor of the tests' \<^verbatim>\<open>CustomType\<close> does for an object built from an
  \<^verbatim>\<open>int\<close>), \<open>copy_throws\<close> always throws.
\<close>

definition copy_same :: "('k, 'c) copy_ctor" where
  "copy_same k c = Some c"

definition copy_throws :: "('k, 'c) copy_ctor" where
  "copy_throws k c = None"

section \<open>Typed extraction and keyed navigation\<close>

lemma Map_at_present:
  "distinct (map fst m) \<Longrightarrow> (key, child) \<in> set m \<Longrightarrow> Map_at m key = Inr child"
  by (simp add: Map_at_def)

lemma Map_at_absent: "key \<notin> fst ` set m \<Longrightarrow> Map_at m key = Inl out_of_range"
proof -
  assume "key \<notin> fst ` set m"
  then have "map_of m key = None"
    by (simp add: map_of_eq_None_iff)
  then show ?thesis
    by (simp add: Map_at_def)
qed

lemma get_Map_other: "which v \<noteq> TMap \<Longrightarrow> get_Map v = Inl bad_get"
  by (cases v) simp_all



text \<open>
  Claim C5. \<^verbatim>\<open>get(key)\<close> on a \<^verbatim>\<open>Message\<close> or a \<^verbatim>\<open>Nested\<close> whose item holds a map
  returns the accessor over the child stored at the key when the key is present, fails
  with \<^verbatim>\<open>out_of_range\<close> (KeyNotFound) when it is absent, and fails with \<^verbatim>\<open>bad_get\<close>
  (TypeMismatch) when the item holds no map. A missing key is an error, never a new entry:
  \<^verbatim>\<open>get\<close> is a \<^verbatim>\<open>const\<close> member reading the map with \<^verbatim>\<open>at\<close>, so its only effect is
  its result.
\<close>

theorem get_navigation:
  fixes msg :: "('k, 'c) Message" and n :: "('k, 'c) Nested"
  shows
  "(\<forall>m child. m_item msg = Map m \<and> distinct (map fst m) \<and> (key, child) \<in> set m
      \<longrightarrow> Message_get key msg = Inr \<lparr>m_pitem = child\<rparr>)
 \<and> (\<forall>m. m_item msg = Map m \<and> key \<notin> fst ` set m \<longrightarrow> Message_get key msg = Inl out_of_range)
 \<and> (which (m_item msg) \<noteq> TMap \<longrightarrow> Message_get key msg = Inl bad_get)
 \<and> (\<forall>m child. m_pitem n = Map m \<and> distinct (map fst m) \<and> (key, child) \<in> set m
      \<longrightarrow> Nested_get key n = Inr \<lparr>m_pitem = child\<rparr>)
 \<and> (\<forall>m. m_pitem n = Map m \<and> key \<notin> fst ` set m \<longrightarrow> Nested_get key n = Inl out_of_range)
 \<and> (which (m_pitem n) \<noteq> TMap \<longrightarrow> Nested_get key n = Inl bad_get)"
  by (auto simp: Message_get_def Nested_get_def Map_at_present Map_at_absent get_Map_other)

theorem get_navigation_witness:
  "Message_get (KInt 7)
     \<lparr>m_item = (Map [(KStr ''type'', Str ''X''), (KInt 7, Num 3)] :: (unit, nat) Item)\<rparr>
     = Inr \<lparr>m_pitem = Num 3\<rparr>
 \<and> Message_get (KInt 8)
     \<lparr>m_item = (Map [(KStr ''type'', Str ''X''), (KInt 7, Num 3)] :: (unit, nat) Item)\<rparr>
     = Inl out_of_range
 \<and> Nested_get (KInt 7) \<lparr>m_pitem = (Bool True :: (unit, nat) Item)\<rparr> = Inl bad_get"
proof -
  let ?msg = "\<lparr>m_item = (Map [(KStr ''type'', Str ''X''), (KInt 7, Num 3)] :: (unit, nat) Item)\<rparr>"
  let ?n = "\<lparr>m_pitem = (Bool True :: (unit, nat) Item)\<rparr>"
  show ?thesis
    using get_navigation [of ?msg "KInt 7" ?n] get_navigation [of ?msg "KInt 8" ?n]
    by simp
qed

section \<open>The empty queue\<close>

text \<open>
  Claim C3. On a queue with no entries (as constructed, or drained), \<^verbatim>\<open>pop\<close> returns
  \<^verbatim>\<open>boost::none\<close> without raising and leaves the queue as it was, \<^verbatim>\<open>size\<close> is 0, and
  the same holds after any number of further \<^verbatim>\<open>pop\<close> calls.
\<close>

theorem pop_empty:
  assumes "m_queue q = []"
  shows "Queue_pop cc q = (Inr None, q) \<and> Queue_size q = 0
       \<and> (\<forall>n. ((\<lambda>s. snd (Queue_pop cc s)) ^^ n) q = q
              \<and> Queue_pop cc (((\<lambda>s. snd (Queue_pop cc s)) ^^ n) q) = (Inr None, q))"
proof -
  have p: "Queue_pop cc q = (Inr None, q)"
    using assms by (simp add: Queue_pop_def size_unsafe_def)
  have i: "((\<lambda>s. snd (Queue_pop cc s)) ^^ n) q = q" for n
    by (induction n) (simp_all add: p)
  show ?thesis
    using assms by (simp add: p i Queue_size_def size_unsafe_def)
qed

theorem pop_empty_witness:
  "m_queue (Queue_init :: (unit, nat) Queue) = []
 \<and> Queue_pop copy_same (Queue_init :: (unit, nat) Queue) = (Inr None, Queue_init)
 \<and> Queue_size (Queue_init :: (unit, nat) Queue) = 0"
proof -
  have e: "m_queue (Queue_init :: (unit, nat) Queue) = []"
    by (simp add: Queue_init_def)
  show ?thesis
    using e pop_empty [OF e, of copy_same] by simp
qed

section \<open>The copy visitor\<close>

lemma CopyVisitor_owned_id:
  "owned v \<Longrightarrow> CopyVisitor cc h v = Inr v"
  "owned_entries m \<Longrightarrow> CopyVisitor_entries cc h m = Inr m"
  by (induction cc h v and cc h m rule: CopyVisitor_CopyVisitor_entries.induct) simp_all

lemma copy_Item_equal_id:
  "copy_equal cc v \<Longrightarrow> copy_Item cc v = Inr v"
  "copy_equal_entries cc m \<Longrightarrow> copy_entries cc m = Inr m"
  by (induction cc v and cc m rule: copy_Item_copy_entries.induct) simp_all

lemma CopyVisitor_result_owned:
  "CopyVisitor cc h v = Inr i \<Longrightarrow> owned i"
  "CopyVisitor_entries cc h m = Inr m' \<Longrightarrow> owned_entries m'"
  by (induction cc h v and cc h m arbitrary: i and m' rule: CopyVisitor_CopyVisitor_entries.induct)
    (auto split: option.splits sum.splits)

lemma CopyVisitor_const_owned: "owned v \<Longrightarrow> CopyVisitor_const cc h v = copy_Item cc v"
  by (cases v) simp_all








section \<open>Binding to a Lua state\<close>

text \<open>
  Claim C8. Binding a queue a second time to the same \<^verbatim>\<open>lua_State\<close> changes nothing:
  the queue's context still wraps that state (the second call builds a new
  \<^verbatim>\<open>LuaContext\<close> object for the same state), the set of bound states is the same, and no
  function is registered again, whatever \<^verbatim>\<open>registerFunction\<close> does.
\<close>

theorem bind_idempotent:
  "Queue_bind registerFunction L (Queue_bind registerFunction L s)
     = Queue_bind registerFunction L s"
  by (cases s) (simp add: Queue_bind_def Let_def)

section \<open>Values without pointers\<close>




section \<open>Pushing and popping\<close>

lemma push_owned_equal:
  fixes q :: "('k, 'c) Queue"
  assumes "owned (arg_item a)" and "copy_equal cc (arg_item a)"
  shows "Queue_push cc h a q = (Inr (), q\<lparr>m_queue := m_queue q @ [arg_item a]\<rparr>)"
  using assms
  by (cases a) (simp_all add: CopyVisitor_owned_id CopyVisitor_const_owned copy_Item_equal_id)

lemma pop_front:
  fixes q :: "('k, 'c) Queue"
  assumes "m_queue q = v # rest" and "size_unsafe q \<noteq> 0" and "copy_equal cc v"
  shows "Queue_pop cc q = (Inr (Some \<lparr>m_item = v\<rparr>), q\<lparr>m_queue := rest\<rparr>)"
  using assms by (simp add: Queue_pop_def copy_Item_equal_id)


lemma push_rvalue_stores_owned:
  fixes q :: "('k, 'c) Queue"
  assumes "Queue_push cc h (Rvalue v) q = (Inr (), q')"
  shows "\<exists>item. m_queue q' = m_queue q @ [item] \<and> owned item"
  using assms by (auto split: sum.splits dest: CopyVisitor_result_owned(1))

lemma primitive_owned_equal: "primitive v \<Longrightarrow> owned v \<and> copy_equal cc v"
  by (cases v) simp_all

text \<open>
  Claim C1. After \<^verbatim>\<open>push\<close> returns, the stored value should hold no \<^verbatim>\<open>CopyPtr\<close>
  pointer, at the root or inside a map. \<^verbatim>\<open>push(Item&&)\<close> does that
  (\<open>push_rvalue_stores_owned\<close>), and the tests push their maps as rvalues. But
  \<^verbatim>\<open>push(const Item&)\<close> of a map \<^verbatim>\<open>{"temp": pointer}\<close> stores the map with the pointer
  still in it: the visit of a constant map takes the pass-through operator, which copies
  the map, and not the operator that visits the entries. The message popped later gives
  \<^verbatim>\<open>bad_get\<close> for \<^verbatim>\<open>get("temp").as<CustomType>()\<close> and the raw address for
  \<^verbatim>\<open>as<CopyPtr<CustomType>*>()\<close>. Here the object at address 5 has content 7; the last
  conjunct is the same map pushed as an rvalue.
\<close>

theorem push_lvalue_map_keeps_pointer:
  "Queue_push copy_same [5 \<mapsto> 7] (Lvalue (Map [(KStr ''temp'', CopyPtr () 5)])) Queue_init
     = (Inr (), \<lparr>m_lua = None,
                 m_queue = [Map [(KStr ''temp'', CopyPtr () 5)] :: (unit, nat) Item]\<rparr>)
 \<and> \<not> owned (Map [(KStr ''temp'', CopyPtr () 5)] :: (unit, nat) Item)
 \<and> Queue_pop copy_same
      \<lparr>m_lua = None, m_queue = [Map [(KStr ''temp'', CopyPtr () 5)] :: (unit, nat) Item]\<rparr>
     = (Inr (Some \<lparr>m_item = Map [(KStr ''temp'', CopyPtr () 5)]\<rparr>), Queue_init)
 \<and> Message_get (KStr ''temp'')
      \<lparr>m_item = (Map [(KStr ''temp'', CopyPtr () 5)] :: (unit, nat) Item)\<rparr>
     = Inr \<lparr>m_pitem = CopyPtr () 5\<rparr>
 \<and> Nested_as_Custom () \<lparr>m_pitem = (CopyPtr () 5 :: (unit, nat) Item)\<rparr> = Inl bad_get
 \<and> Nested_as_CopyPtr () \<lparr>m_pitem = (CopyPtr () 5 :: (unit, nat) Item)\<rparr> = Inr 5
 \<and> Queue_push copy_same [5 \<mapsto> 7] (Rvalue (Map [(KStr ''temp'', CopyPtr () 5)])) Queue_init
     = (Inr (), \<lparr>m_lua = None,
                 m_queue = [Map [(KStr ''temp'', Custom () 7)] :: (unit, nat) Item]\<rparr>)"
  by (simp add: Queue_init_def Queue_pop_def size_unsafe_def copy_same_def Message_get_def
      Map_at_def Nested_as_Custom_def Nested_as_CopyPtr_def)




text \<open>
  Claim C6, as stated for any queue, fails on a queue that already holds an entry:
  \<^verbatim>\<open>pop\<close> after the push returns that entry, not the pushed value.
\<close>

theorem roundtrip_nonempty_counterexample:
  "fst (Queue_pop copy_same
     (snd (Queue_push copy_same Map.empty (Rvalue (Bool True))
        \<lparr>m_lua = None, m_queue = [Bool False :: (unit, nat) Item]\<rparr>)))
   = Inr (Some \<lparr>m_item = Bool False\<rparr>)
 \<and> (Bool False :: (unit, nat) Item) \<noteq> Bool True"
  by (simp add: Queue_pop_def size_unsafe_def)

text \<open>
  Claim C6, amended. On an empty queue, pushing a \<^verbatim>\<open>Bool\<close>, a \<^verbatim>\<open>Num\<close> or a \<^verbatim>\<open>Str\<close>
  (by any overload) and then popping returns a message holding exactly the pushed value,
  with the same alternative, and leaves the queue empty; \<^verbatim>\<open>as\<close> at that alternative
  returns the payload.
\<close>

theorem primitive_roundtrip:
  fixes q :: "('k, 'c) Queue"
  assumes "m_queue q = []" and "primitive (arg_item a)"
  shows "Queue_push cc h a q = (Inr (), q\<lparr>m_queue := [arg_item a]\<rparr>)
       \<and> Queue_pop cc (q\<lparr>m_queue := [arg_item a]\<rparr>) = (Inr (Some \<lparr>m_item = arg_item a\<rparr>), q)
       \<and> (\<forall>b. arg_item a = Bool b \<longrightarrow> Message_as_Bool \<lparr>m_item = arg_item a\<rparr> = Inr b)
       \<and> (\<forall>x. arg_item a = Num x \<longrightarrow> Message_as_Num \<lparr>m_item = arg_item a\<rparr> = Inr x)
       \<and> (\<forall>s. arg_item a = Str s \<longrightarrow> Message_as_Str \<lparr>m_item = arg_item a\<rparr> = Inr s)"
proof -
  have oc: "owned (arg_item a) \<and> copy_equal cc (arg_item a)"
    using assms(2) by (rule primitive_owned_equal)
  have q: "q\<lparr>m_queue := []\<rparr> = q"
    using assms(1) by (cases q) simp
  have 1: "Queue_push cc h a q = (Inr (), q\<lparr>m_queue := [arg_item a]\<rparr>)"
    using oc assms(1) by (simp add: push_owned_equal)
  have 2: "Queue_pop cc (q\<lparr>m_queue := [arg_item a]\<rparr>) = (Inr (Some \<lparr>m_item = arg_item a\<rparr>), q)"
    using oc q by (simp add: pop_front size_unsafe_def)
  show ?thesis
    using 1 2 by (simp add: Message_as_Bool_def Message_as_Num_def Message_as_Str_def)
qed

theorem primitive_roundtrip_witness:
  "Queue_push copy_throws Map.empty (Lvalue (Num 5)) (Queue_init :: (unit, nat) Queue)
     = (Inr (), Queue_init\<lparr>m_queue := [Num 5]\<rparr>)
 \<and> Queue_pop copy_throws ((Queue_init :: (unit, nat) Queue)\<lparr>m_queue := [Num 5]\<rparr>)
     = (Inr (Some \<lparr>m_item = Num 5\<rparr>), Queue_init)
 \<and> Message_as_Num \<lparr>m_item = (Num 5 :: (unit, nat) Item)\<rparr> = Inr 5"
proof -
  have e: "m_queue (Queue_init :: (unit, nat) Queue) = []"
    by (simp add: Queue_init_def)
  have p: "primitive (arg_item (Lvalue (Num 5 :: (unit, nat) Item)))"
    by simp
  show ?thesis
    using primitive_roundtrip [OF e p, of copy_throws Map.empty] by simp
qed



end
